theory Spec2Isabelle
  imports Complex_Main "HOL-Library.Sublist" "HOL-Library.AList"
begin

section \<open>Python values\<close>

text \<open>
  The processors pass untyped dictionaries around. A value is what \<^verbatim>\<open>json.loads\<close> can
  yield, which is also all the processors ever build themselves: \<^verbatim>\<open>None\<close>, a bool, a
  number, a string, a list or a dict. Numbers are exact rationals: Python's \<^verbatim>\<open>int\<close> and
  \<^verbatim>\<open>float\<close> compare equal across the two types, and float rounding error, overflow and
  the non-finite floats are left out of the model. A dict is an association list with
  distinct keys in insertion order. A string is a list of code points below 256.
\<close>

datatype pyval =
    PNone
  | PBool bool
  | PNum rat
  | PStr string
  | PList "pyval list"
  | PDict "(string \<times> pyval) list"

type_synonym pydict = "(string \<times> pyval) list"

datatype py_error = TypeError | KeyError | IndexError | ValueError

text \<open>\<^verbatim>\<open>d.get(k)\<close>, \<^verbatim>\<open>d.get(k, default)\<close>, \<^verbatim>\<open>d[k]\<close> and \<^verbatim>\<open>d[k] = v\<close>.\<close>

definition dict_get :: "pydict \<Rightarrow> string \<Rightarrow> pyval" where
  "dict_get d k = (case map_of d k of None \<Rightarrow> PNone | Some v \<Rightarrow> v)"

definition dict_get_default :: "pydict \<Rightarrow> string \<Rightarrow> pyval \<Rightarrow> pyval" where
  "dict_get_default d k dflt = (case map_of d k of None \<Rightarrow> dflt | Some v \<Rightarrow> v)"

definition dict_item :: "pydict \<Rightarrow> string \<Rightarrow> py_error + pyval" where
  "dict_item d k = (case map_of d k of None \<Rightarrow> Inl KeyError | Some v \<Rightarrow> Inr v)"

definition dict_set :: "pydict \<Rightarrow> string \<Rightarrow> pyval \<Rightarrow> pydict" where
  "dict_set d k v = AList.update k v d"

text \<open>\<^verbatim>\<open>k in d\<close>.\<close>

definition has_key :: "pydict \<Rightarrow> string \<Rightarrow> bool" where
  "has_key d k = (map_of d k \<noteq> None)"

text \<open>Truth value of an object in a condition.\<close>

fun truthy :: "pyval \<Rightarrow> bool" where
  "truthy PNone = False"
| "truthy (PBool b) = b"
| "truthy (PNum n) = (n \<noteq> 0)"
| "truthy (PStr s) = (s \<noteq> [])"
| "truthy (PList xs) = (xs \<noteq> [])"
| "truthy (PDict kvs) = (kvs \<noteq> [])"

text \<open>\<^verbatim>\<open>obj[k] = v\<close> on an arbitrary value: only a dict takes a string key.\<close>

fun setitem :: "pyval \<Rightarrow> string \<Rightarrow> pyval \<Rightarrow> py_error + pydict" where
  "setitem (PDict d) k v = Inr (dict_set d k v)"
| "setitem _ k v = Inl TypeError"

section \<open>The regular expressions of the normalizers\<close>

text \<open>\<^verbatim>\<open>\s\<close> of a \<^verbatim>\<open>str\<close> pattern, on code points below 256.\<close>

definition is_space :: "char \<Rightarrow> bool" where
  "is_space c = ((of_char c :: nat) \<in> {9, 10, 11, 12, 13, 28, 29, 30, 31, 32, 133, 160})"

text \<open>The text after the first occurrence of a literal, if it occurs.\<close>

fun after_first :: "string \<Rightarrow> string \<Rightarrow> string option" where
  "after_first needle [] = (if needle = [] then Some [] else None)"
| "after_first needle (c # cs) =
     (if prefix needle (c # cs) then Some (drop (length needle) (c # cs))
      else after_first needle cs)"

lemma after_first_length: "after_first needle s = Some r \<Longrightarrow> length r \<le> length s"
  by (induction s) (auto split: if_splits)

text \<open>
  \<^verbatim>\<open>re.sub(r'<think>.*?</think>', '', response, flags=re.DOTALL)\<close>: scanning from the
  left, an opening tag that some closing tag follows is removed up to the nearest
  closing tag, and the scan goes on behind it.
\<close>

function sub_think :: "string \<Rightarrow> string" where
  "sub_think [] = []"
| "sub_think (c # cs) =
     (if prefix ''<think>'' (c # cs) then
        (case after_first ''</think>'' (drop 7 (c # cs)) of
           Some rest \<Rightarrow> sub_think rest
         | None \<Rightarrow> c # sub_think cs)
      else c # sub_think cs)"
  by pat_completeness auto
termination
  by (relation "measure length") (auto dest!: after_first_length)

text \<open>
  \<^verbatim>\<open>re.sub(r'```json\s*|\s*```', '', response)\<close>: at each position the first alternative
  is tried first; the second one is a maximal run of white space followed by a fence.
\<close>

function sub_fences :: "string \<Rightarrow> string" where
  "sub_fences [] = []"
| "sub_fences (c # cs) =
     (if prefix ''```json'' (c # cs) then sub_fences (dropWhile is_space (drop 7 (c # cs)))
      else if prefix ''```'' (dropWhile is_space (c # cs))
        then sub_fences (drop 3 (dropWhile is_space (c # cs)))
      else c # sub_fences cs)"
  by pat_completeness auto
termination
proof (relation "measure length", goal_cases)
  case 1
  show ?case by simp
next
  case (2 c cs)
  have "length (dropWhile is_space (drop 7 (c # cs))) \<le> length (drop 7 (c # cs))"
    by (rule length_dropWhile_le)
  then show ?case by simp
next
  case (3 c cs)
  have "length (dropWhile is_space (c # cs)) \<le> length (c # cs)"
    by (rule length_dropWhile_le)
  moreover from 3 have "3 \<le> length (dropWhile is_space (c # cs))"
    by (auto simp: prefix_def)
  ultimately show ?case by simp
next
  case (4 c cs)
  show ?case by simp
qed

text \<open>
  \<^verbatim>\<open>re.sub(lit + r'\s*', '', response)\<close> for a non-empty literal \<^verbatim>\<open>lit\<close>: the simple
  processor removes \<^verbatim>\<open>```json\s*\<close> and then \<^verbatim>\<open>```\s*\<close> this way.
\<close>

function sub_lit_ws :: "string \<Rightarrow> string \<Rightarrow> string" where
  "sub_lit_ws lit [] = []"
| "sub_lit_ws lit (c # cs) =
     (if lit \<noteq> [] \<and> prefix lit (c # cs)
        then sub_lit_ws lit (dropWhile is_space (drop (length lit) (c # cs)))
      else c # sub_lit_ws lit cs)"
  by pat_completeness auto
termination
proof (relation "measure (\<lambda>(lit, s). length s)", goal_cases)
  case 1
  show ?case by simp
next
  case (2 lit c cs)
  have "length (dropWhile is_space (drop (length lit) (c # cs))) \<le> length (drop (length lit) (c # cs))"
    by (rule length_dropWhile_le)
  moreover have "length (drop (length lit) (c # cs)) = Suc (length cs) - length lit"
    by simp
  moreover from 2 have "0 < length lit" by simp
  ultimately have "length (dropWhile is_space (drop (length lit) (c # cs))) < Suc (length cs)"
    by linarith
  then show ?case by simp
next
  case (3 lit c cs)
  show ?case by simp
qed

text \<open>
  \<^verbatim>\<open>re.search(r'\{[^{}]*(?:\{[^{}]*\}[^{}]*)*\}', response, re.DOTALL)\<close>. The character
  classes exclude both braces, so the match at a position is deterministic:
  \<open>groups_end\<close> reads \<^verbatim>\<open>(?:\{[^{}]*\}[^{}]*)*\}\<close> and returns what follows the match.
\<close>

definition plain :: "char \<Rightarrow> bool" where
  "plain c = (c \<noteq> CHR ''{'' \<and> c \<noteq> CHR ''}'')"

function groups_end :: "string \<Rightarrow> string option" where
  "groups_end [] = None"
| "groups_end (c # cs) =
     (if c = CHR ''}'' then Some cs
      else if c = CHR ''{'' then
        (case dropWhile plain cs of
           [] \<Rightarrow> None
         | d # ds \<Rightarrow> if d = CHR ''}'' then groups_end (dropWhile plain ds) else None)
      else None)"
  by pat_completeness auto
termination
proof (relation "measure length", goal_cases)
  case 1
  show ?case by simp
next
  case (2 c cs d ds)
  have "length (dropWhile plain ds) \<le> length ds"
    by (rule length_dropWhile_le)
  moreover have "length (dropWhile plain cs) \<le> length cs"
    by (rule length_dropWhile_le)
  ultimately show ?case using 2 by simp
qed

definition match_at :: "string \<Rightarrow> string option" where
  "match_at s =
     (case s of
        [] \<Rightarrow> None
      | c # cs \<Rightarrow>
          if c = CHR ''{'' then
            (case groups_end (dropWhile plain cs) of
               None \<Rightarrow> None
             | Some rest \<Rightarrow> Some (take (length s - length rest) s))
          else None)"

fun search_object :: "string \<Rightarrow> string option" where
  "search_object [] = None"
| "search_object (c # cs) =
     (case match_at (c # cs) of Some m \<Rightarrow> Some m | None \<Rightarrow> search_object cs)"

text \<open>
  \<^verbatim>\<open>re.search(r'\{.*\}', response, re.DOTALL)\<close>: from the first opening brace to the
  last closing brace behind it.
\<close>

definition search_greedy :: "string \<Rightarrow> string option" where
  "search_greedy s =
     (case dropWhile (\<lambda>c. c \<noteq> CHR ''{'') s of
        [] \<Rightarrow> None
      | c # cs \<Rightarrow>
          (case dropWhile (\<lambda>c. c \<noteq> CHR ''}'') (rev cs) of
             [] \<Rightarrow> None
           | r # rs \<Rightarrow> Some (c # rev (r # rs))))"

section \<open>The JSON decoder\<close>

text \<open>
  \<^verbatim>\<open>json.loads\<close> belongs to Python's standard library, not to the repository. It is
  modelled here as a tokenizer followed by a pushdown recognizer; \<open>None\<close> stands for
  \<^verbatim>\<open>JSONDecodeError\<close>. Outside the model, and rejected by it: the literals
  \<^verbatim>\<open>NaN\<close>, \<^verbatim>\<open>Infinity\<close> and \<^verbatim>\<open>-Infinity\<close>, a \<^verbatim>\<open>\u\<close> escape of a code point above 255, and
  the decoder's recursion limit.
\<close>

datatype token = TLBrace | TRBrace | TLBracket | TRBracket | TColon | TComma | TValue pyval

definition is_digit :: "char \<Rightarrow> bool" where
  "is_digit c = (48 \<le> (of_char c :: nat) \<and> (of_char c :: nat) \<le> 57)"

definition digit_val :: "char \<Rightarrow> nat" where
  "digit_val c = of_char c - 48"

definition digits_val :: "string \<Rightarrow> nat" where
  "digits_val ds = foldl (\<lambda>a d. 10 * a + digit_val d) 0 ds"

definition hex_val :: "char \<Rightarrow> nat option" where
  "hex_val c =
     (let n = (of_char c :: nat) in
      if 48 \<le> n \<and> n \<le> 57 then Some (n - 48)
      else if 97 \<le> n \<and> n \<le> 102 then Some (n - 87)
      else if 65 \<le> n \<and> n \<le> 70 then Some (n - 55)
      else None)"

definition hex4 :: "char \<Rightarrow> char \<Rightarrow> char \<Rightarrow> char \<Rightarrow> nat option" where
  "hex4 a b c d =
     (case (hex_val a, hex_val b, hex_val c, hex_val d) of
        (Some w, Some x, Some y, Some z) \<Rightarrow> Some (((w * 16 + x) * 16 + y) * 16 + z)
      | _ \<Rightarrow> None)"

text \<open>The one-character escapes of a JSON string.\<close>

definition unescape :: "char \<Rightarrow> char option" where
  "unescape e =
     (if e = CHR 0x22 then Some (CHR 0x22)
      else if e = CHR 0x5C then Some (CHR 0x5C)
      else if e = CHR ''/'' then Some (CHR ''/'')
      else if e = CHR ''b'' then Some (CHR 0x08)
      else if e = CHR ''f'' then Some (CHR 0x0C)
      else if e = CHR ''n'' then Some (CHR 0x0A)
      else if e = CHR ''r'' then Some (CHR 0x0D)
      else if e = CHR ''t'' then Some (CHR 0x09)
      else None)"

text \<open>
  The body of a string, read behind its opening quote (strict mode: a raw control
  character ends the decoding): the decoded string and the text behind the closing quote.
\<close>

fun scan_string :: "string \<Rightarrow> (string \<times> string) option" where
  "scan_string [] = None"
| "scan_string (c # cs) =
     (if c = CHR 0x22 then Some ([], cs)
      else if c = CHR 0x5C then
        (case cs of
           [] \<Rightarrow> None
         | e # es \<Rightarrow>
             if e = CHR ''u'' then
               (case es of
                  h1 # h2 # h3 # h4 # r \<Rightarrow>
                    (case hex4 h1 h2 h3 h4 of
                       None \<Rightarrow> None
                     | Some n \<Rightarrow>
                         if n < 256
                         then map_option (\<lambda>(s, t). (char_of n # s, t)) (scan_string r)
                         else None)
                | _ \<Rightarrow> None)
             else
               (case unescape e of
                  None \<Rightarrow> None
                | Some d \<Rightarrow> map_option (\<lambda>(s, t). (d # s, t)) (scan_string es)))
      else if (of_char c :: nat) < 32 then None
      else map_option (\<lambda>(s, t). (c # s, t)) (scan_string cs))"

text \<open>
  A number, as the decoder's pattern
  \<^verbatim>\<open>(-?(?:0|[1-9][0-9]*))(\.[0-9]+)?([eE][-+]?[0-9]+)?\<close> reads it: the value and the text
  behind the match.
\<close>

definition scan_frac :: "string \<Rightarrow> rat \<times> string" where
  "scan_frac s =
     (case s of
        p # r \<Rightarrow>
          if p = CHR ''.'' \<and> takeWhile is_digit r \<noteq> []
          then (of_nat (digits_val (takeWhile is_digit r)) / 10 ^ length (takeWhile is_digit r),
                dropWhile is_digit r)
          else (0, s)
      | [] \<Rightarrow> (0, s))"

definition scan_exp :: "string \<Rightarrow> rat \<times> string" where
  "scan_exp s =
     (case s of
        e # r \<Rightarrow>
          if e = CHR ''e'' \<or> e = CHR ''E'' then
            (case r of
               g # r' \<Rightarrow>
                 if (g = CHR ''+'' \<or> g = CHR ''-'') \<and> takeWhile is_digit r' \<noteq> [] then
                   (if g = CHR ''-''
                    then 1 / 10 ^ digits_val (takeWhile is_digit r')
                    else 10 ^ digits_val (takeWhile is_digit r'),
                    dropWhile is_digit r')
                 else if takeWhile is_digit r \<noteq> [] then
                   (10 ^ digits_val (takeWhile is_digit r), dropWhile is_digit r)
                 else (1, s)
             | [] \<Rightarrow> (1, s))
          else (1, s)
      | [] \<Rightarrow> (1, s))"

definition scan_int :: "string \<Rightarrow> (nat \<times> string) option" where
  "scan_int s =
     (case s of
        [] \<Rightarrow> None
      | d # r \<Rightarrow>
          if \<not> is_digit d then None
          else if d = CHR ''0'' then Some (0, r)
          else Some (digits_val (takeWhile is_digit s), dropWhile is_digit s))"

definition scan_unsigned :: "string \<Rightarrow> (rat \<times> string) option" where
  "scan_unsigned s =
     (case scan_int s of
        None \<Rightarrow> None
      | Some (iv, s2) \<Rightarrow>
          (case scan_frac s2 of
             (fv, s3) \<Rightarrow>
               (case scan_exp s3 of
                  (ev, s4) \<Rightarrow> Some ((of_nat iv + fv) * ev, s4))))"

definition scan_number :: "string \<Rightarrow> (rat \<times> string) option" where
  "scan_number s =
     (case s of
        [] \<Rightarrow> None
      | c # r \<Rightarrow>
          if c = CHR ''-'' then map_option (\<lambda>(v, t). (- v, t)) (scan_unsigned r)
          else scan_unsigned s)"

lemma scan_string_length: "scan_string s = Some (t, r) \<Longrightarrow> length r < length s"
proof (induction s arbitrary: t r rule: scan_string.induct)
  case 1
  then show ?case by simp
next
  case (2 c cs)
  then show ?case
    by (fastforce split: if_splits list.splits option.splits)
qed

lemma scan_frac_length: "scan_frac s = (v, r) \<Longrightarrow> length r \<le> length s"
proof -
  have "length (dropWhile is_digit (tl s)) \<le> length (tl s)"
    by (rule length_dropWhile_le)
  moreover assume "scan_frac s = (v, r)"
  ultimately show ?thesis
    by (auto simp: scan_frac_def split: list.splits if_splits)
qed

lemma scan_exp_length: "scan_exp s = (v, r) \<Longrightarrow> length r \<le> length s"
proof -
  have "length (dropWhile is_digit (tl s)) \<le> length (tl s)"
    by (rule length_dropWhile_le)
  moreover have "length (dropWhile is_digit (tl (tl s))) \<le> length (tl (tl s))"
    by (rule length_dropWhile_le)
  moreover assume "scan_exp s = (v, r)"
  ultimately show ?thesis
    by (auto simp: scan_exp_def split: list.splits if_splits)
qed

lemma scan_int_length: "scan_int s = Some (v, r) \<Longrightarrow> length r < length s"
proof -
  have "length (dropWhile is_digit (tl s)) \<le> length (tl s)"
    by (rule length_dropWhile_le)
  moreover assume "scan_int s = Some (v, r)"
  ultimately show ?thesis
    by (auto simp: scan_int_def split: list.splits if_splits)
qed

lemma scan_unsigned_length:
  assumes "scan_unsigned s = Some (v, r)"
  shows "length r < length s"
proof -
  from assms obtain iv s2 fv s3 ev where i: "scan_int s = Some (iv, s2)"
    and f: "scan_frac s2 = (fv, s3)" and e: "scan_exp s3 = (ev, r)"
    by (auto simp: scan_unsigned_def split: option.splits prod.splits)
  show ?thesis
    using scan_int_length [OF i] scan_frac_length [OF f] scan_exp_length [OF e] by simp
qed

lemma scan_number_length: "scan_number s = Some (v, r) \<Longrightarrow> length r < length s"
  by (cases s) (auto simp: scan_number_def split: if_splits dest: scan_unsigned_length)

text \<open>The tokens of a text; white space is \<^verbatim>\<open>' \t\n\r'\<close>.\<close>

definition json_ws :: "char \<Rightarrow> bool" where
  "json_ws c = (c = CHR '' '' \<or> c = CHR 0x09 \<or> c = CHR 0x0A \<or> c = CHR 0x0D)"

function tokenize :: "string \<Rightarrow> token list option" where
  "tokenize [] = Some []"
| "tokenize (c # cs) =
     (if json_ws c then tokenize cs
      else if c = CHR ''{'' then map_option (Cons TLBrace) (tokenize cs)
      else if c = CHR ''}'' then map_option (Cons TRBrace) (tokenize cs)
      else if c = CHR ''['' then map_option (Cons TLBracket) (tokenize cs)
      else if c = CHR '']'' then map_option (Cons TRBracket) (tokenize cs)
      else if c = CHR '':'' then map_option (Cons TColon) (tokenize cs)
      else if c = CHR '','' then map_option (Cons TComma) (tokenize cs)
      else if c = CHR 0x22 then
        (case scan_string cs of
           None \<Rightarrow> None
         | Some (s, rest) \<Rightarrow> map_option (Cons (TValue (PStr s))) (tokenize rest))
      else if prefix ''null'' (c # cs)
        then map_option (Cons (TValue PNone)) (tokenize (drop 4 (c # cs)))
      else if prefix ''true'' (c # cs)
        then map_option (Cons (TValue (PBool True))) (tokenize (drop 4 (c # cs)))
      else if prefix ''false'' (c # cs)
        then map_option (Cons (TValue (PBool False))) (tokenize (drop 5 (c # cs)))
      else
        (case scan_number (c # cs) of
           None \<Rightarrow> None
         | Some (n, rest) \<Rightarrow> map_option (Cons (TValue (PNum n))) (tokenize rest)))"
  by pat_completeness auto
termination
  by (relation "measure length")
    (auto dest: scan_string_length scan_number_length)

text \<open>
  The recognizer keeps a stack of the containers that are still open: an array with its
  elements so far, an object waiting for a key or a separator, an object waiting for the
  value of a key. A repeated key keeps its first position and takes the last value, as
  building a \<^verbatim>\<open>dict\<close> from the pairs does.
\<close>

datatype frame = FArr "pyval list" | FObj pydict | FKey pydict string

datatype pmode = WantValue | ArrStart | ObjStart | WantKey | WantColon | AfterValue | Finished pyval

type_synonym pstate = "pmode \<times> frame list"

fun deliver :: "pyval \<Rightarrow> frame list \<Rightarrow> pstate option" where
  "deliver v [] = Some (Finished v, [])"
| "deliver v (FArr items # st) = Some (AfterValue, FArr (items @ [v]) # st)"
| "deliver v (FKey ms k # st) = Some (AfterValue, FObj (AList.update k v ms) # st)"
| "deliver v (FObj ms # st) = None"

fun start_value :: "token \<Rightarrow> frame list \<Rightarrow> pstate option" where
  "start_value TLBrace st = Some (ObjStart, FObj [] # st)"
| "start_value TLBracket st = Some (ArrStart, FArr [] # st)"
| "start_value (TValue v) st = deliver v st"
| "start_value _ st = None"

fun close_top :: "token \<Rightarrow> frame list \<Rightarrow> pstate option" where
  "close_top TRBracket (FArr items # st) = deliver (PList items) st"
| "close_top TRBrace (FObj ms # st) = deliver (PDict ms) st"
| "close_top _ _ = None"

fun take_key :: "token \<Rightarrow> frame list \<Rightarrow> pstate option" where
  "take_key (TValue (PStr k)) (FObj ms # st) = Some (WantColon, FKey ms k # st)"
| "take_key _ _ = None"

fun next_item :: "frame list \<Rightarrow> pstate option" where
  "next_item (FArr items # st) = Some (WantValue, FArr items # st)"
| "next_item (FObj ms # st) = Some (WantKey, FObj ms # st)"
| "next_item _ = None"

fun step :: "pstate \<Rightarrow> token \<Rightarrow> pstate option" where
  "step (WantValue, st) t = start_value t st"
| "step (ArrStart, st) t = (if t = TRBracket then close_top t st else start_value t st)"
| "step (ObjStart, st) t = (if t = TRBrace then close_top t st else take_key t st)"
| "step (WantKey, st) t = take_key t st"
| "step (WantColon, st) t = (if t = TColon then Some (WantValue, st) else None)"
| "step (AfterValue, st) t = (if t = TComma then next_item st else close_top t st)"
| "step (Finished v, st) t = None"

fun run :: "pstate \<Rightarrow> token list \<Rightarrow> pstate option" where
  "run s [] = Some s"
| "run s (t # ts) = (case step s t of None \<Rightarrow> None | Some s' \<Rightarrow> run s' ts)"

definition json_loads :: "string \<Rightarrow> pyval option" where
  "json_loads s =
     (case tokenize s of
        None \<Rightarrow> None
      | Some ts \<Rightarrow>
          (case run (WantValue, []) ts of
             Some (Finished v, st) \<Rightarrow> Some v
           | _ \<Rightarrow> None))"

section \<open>The fast processor\<close>

text \<open>
  \<^verbatim>\<open>FastDocumentProcessor._parse_json\<close>. The handler of the bare \<^verbatim>\<open>except\<close> slices
  \<^verbatim>\<open>response\<close> again: that works on a string (by then the cleaned text) and on a list
  (which \<^verbatim>\<open>re.sub\<close> rejected), and raises on every other value (a \<^verbatim>\<open>TypeError\<close>; for a
  dict, from Python 3.12 on, a \<^verbatim>\<open>KeyError\<close>).
\<close>

fun parse_json :: "pyval \<Rightarrow> py_error + pyval" where
  "parse_json (PStr response) =
     (let cleaned = sub_fences (sub_think response) in
      case search_object cleaned of
        Some m \<Rightarrow>
          (case json_loads m of
             Some v \<Rightarrow> Inr v
           | None \<Rightarrow>
               Inr (PDict [(''type'', PStr ''document''), (''confidence'', PNum (5 / 10)),
                           (''raw'', PStr (take 200 cleaned))]))
      | None \<Rightarrow>
          Inr (PDict [(''type'', PStr ''document''), (''confidence'', PNum (6 / 10)),
                      (''main_content'', PStr (take 200 cleaned))]))"
| "parse_json (PList xs) =
     Inr (PDict [(''type'', PStr ''document''), (''confidence'', PNum (5 / 10)),
                 (''raw'', PList (take 200 xs))])"
| "parse_json _ = Inl TypeError"

text \<open>A request to the model gateway, and a gateway: any client with a \<^verbatim>\<open>query\<close> method,
  whose answers may depend on a state of its own.\<close>

record 'img request =
  req_text :: string
  req_images :: "'img list"
  req_max_tokens :: nat
  req_temperature :: rat

type_synonym ('g, 'img) gateway = "'g \<Rightarrow> 'img request \<Rightarrow> pydict \<times> 'g"

definition fast_prompt :: string where
  \<open>fast_prompt =
     ''Analyze this document. Return JSON only:\<newline>\<newline>{\<newline>'' @
     ''  "type": "invoice/receipt/form/table/report/letter/other",\<newline>'' @
     ''  "confidence": 0.9,\<newline>'' @
     ''  "main_content": "brief summary",\<newline>'' @
     ''  "key_data": {"field": "value"},\<newline>'' @
     ''  "amounts": {"total": ""},\<newline>'' @
     ''  "dates": [""]\<newline>}\<newline>\<newline>'' @
     ''Be concise. JSON only, no explanation.''\<close>

text \<open>What \<^verbatim>\<open>_extract_page_fast\<close> makes of the gateway's answer.\<close>

definition fast_page_record :: "pydict \<Rightarrow> nat \<Rightarrow> py_error + pydict" where
  "fast_page_record result page_num =
     (case dict_item result ''success'' of
        Inl e \<Rightarrow> Inl e
      | Inr ok \<Rightarrow>
          if truthy ok then
            (case dict_item result ''content'' of
               Inl e \<Rightarrow> Inl e
             | Inr content \<Rightarrow>
                 (case parse_json content of
                    Inl e \<Rightarrow> Inl e
                  | Inr parsed \<Rightarrow>
                      (case setitem parsed ''page'' (PNum (of_nat page_num)) of
                         Inl e \<Rightarrow> Inl e
                       | Inr parsed' \<Rightarrow> setitem (PDict parsed') ''success'' (PBool True))))
          else
            Inr [(''page'', PNum (of_nat page_num)),
                 (''success'', PBool False),
                 (''error'', dict_get_default result ''error'' (PStr ''Unknown error'')),
                 (''type'', PStr ''unknown''),
                 (''confidence'', PNum 0)])"

definition extract_page_fast ::
  "('g, 'img) gateway \<Rightarrow> 'g \<Rightarrow> 'img \<Rightarrow> nat \<Rightarrow> (py_error + pydict) \<times> 'g" where
  "extract_page_fast gw g img page_num =
     (case gw g \<lparr>req_text = fast_prompt, req_images = [img],
                 req_max_tokens = 500, req_temperature = 1 / 10\<rparr> of
        (result, g') \<Rightarrow> (fast_page_record result page_num, g'))"

text \<open>\<^verbatim>\<open>sum\<close> over a list, starting from \<^verbatim>\<open>0\<close>: a bool counts as 0 or 1, anything
  but a number raises.\<close>

fun py_sum :: "rat \<Rightarrow> pyval list \<Rightarrow> py_error + rat" where
  "py_sum acc [] = Inr acc"
| "py_sum acc (PNum n # vs) = py_sum (acc + n) vs"
| "py_sum acc (PBool b # vs) = py_sum (acc + (if b then 1 else 0)) vs"
| "py_sum acc (_ # vs) = Inl TypeError"

text \<open>\<^verbatim>\<open>round(x, 2)\<close>: to the nearest hundredth, a tie to the even one.\<close>

definition py_round2 :: "rat \<Rightarrow> rat" where
  "py_round2 x =
     (let y = x * 100; f = \<lfloor>y\<rfloor>; d = y - of_int f
      in of_int (if d < 1 / 2 then f else if 1 / 2 < d then f + 1
                 else if even f then f else f + 1) / 100)"

text \<open>The document type: the loop of \<^verbatim>\<open>_combine_simple\<close> that stops at the first
  extraction with a true \<^verbatim>\<open>success\<close> and a \<^verbatim>\<open>type\<close> key.\<close>

fun first_type :: "pydict list \<Rightarrow> pyval" where
  "first_type [] = PStr ''document''"
| "first_type (ext # rest) =
     (case (truthy (dict_get ext ''success''), map_of ext ''type'') of
        (True, Some t) \<Rightarrow> t
      | _ \<Rightarrow> first_type rest)"

definition fast_confidences :: "pydict list \<Rightarrow> pyval list" where
  "fast_confidences extractions =
     map (\<lambda>e. dict_get_default e ''confidence'' (PNum (5 / 10)))
       (filter (\<lambda>e. truthy (dict_get e ''success'')) extractions)"

definition average :: "pyval list \<Rightarrow> rat \<Rightarrow> py_error + rat" where
  "average confidences dflt =
     (if confidences \<noteq> [] then
        (case py_sum 0 confidences of
           Inl e \<Rightarrow> Inl e
         | Inr s \<Rightarrow> Inr (s / of_nat (length confidences)))
      else Inr dflt)"

definition combine_simple :: "pydict list \<Rightarrow> nat \<Rightarrow> py_error + pydict" where
  "combine_simple extractions total_pages =
     (case average (fast_confidences extractions) (6 / 10) of
        Inl e \<Rightarrow> Inl e
      | Inr avg_conf \<Rightarrow>
          Inr [(''document_type'', first_type extractions),
               (''total_pages'', PNum (of_nat total_pages)),
               (''processed_pages'', PNum (of_nat (length extractions))),
               (''confidence'', PNum (py_round2 avg_conf)),
               (''extracted_content'', PDict [(''pages'', PList (map PDict extractions))]),
               (''status'', PStr ''success''),
               (''note'', PStr (if total_pages > 3 then ''Fast mode - first 3 pages only''
                                else ''Fast mode''))])"

text \<open>The loop of \<^verbatim>\<open>process_document\<close> over the pages it keeps, numbered from
  \<open>i\<close>; an exception of one page ends it.\<close>

fun extract_pages_fast ::
  "('g, 'img) gateway \<Rightarrow> 'g \<Rightarrow> nat \<Rightarrow> 'img list \<Rightarrow> py_error + pydict list" where
  "extract_pages_fast gw g i [] = Inr []"
| "extract_pages_fast gw g i (img # rest) =
     (case extract_page_fast gw g img i of
        (Inl e, g') \<Rightarrow> Inl e
      | (Inr extraction, g') \<Rightarrow>
          (case extract_pages_fast gw g' (Suc i) rest of
             Inl e \<Rightarrow> Inl e
           | Inr extractions \<Rightarrow> Inr (extraction # extractions)))"

definition process_document :: "('g, 'img) gateway \<Rightarrow> 'g \<Rightarrow> 'img list \<Rightarrow> py_error + pydict" where
  "process_document gw g images =
     (let pages_to_process = take (min 3 (length images)) images in
      case extract_pages_fast gw g 1 pages_to_process of
        Inl e \<Rightarrow> Inl e
      | Inr extractions \<Rightarrow> combine_simple extractions (length images))"

section \<open>The simple processor\<close>

text \<open>\<^verbatim>\<open>SimpleDocumentProcessor._parse_response\<close>; its handler returns \<^verbatim>\<open>response\<close>
  as it stands, whatever it is.\<close>

fun parse_response :: "pyval \<Rightarrow> pyval" where
  "parse_response (PStr response) =
     (let cleaned = sub_think (sub_lit_ws ''```'' (sub_lit_ws ''```json'' response)) in
      case search_greedy cleaned of
        Some m \<Rightarrow>
          (case json_loads m of
             Some v \<Rightarrow> v
           | None \<Rightarrow> PDict [(''raw_content'', PStr cleaned)])
      | None \<Rightarrow> PDict [(''raw_content'', PStr cleaned)])"
| "parse_response v = PDict [(''raw_content'', v)]"

text \<open>\<^verbatim>\<open>str(i)\<close> of a page number.\<close>

function str_nat :: "nat \<Rightarrow> string" where
  "str_nat n = (if n < 10 then [char_of (48 + n)]
                else str_nat (n div 10) @ [char_of (48 + n mod 10)])"
  by pat_completeness auto
termination
  by (relation "measure id") auto

definition simple_prompt :: "nat \<Rightarrow> string" where
  \<open>simple_prompt i =
     ''Analyze this document page '' @ str_nat i @
     '' and extract ALL information in JSON format.\<newline>\<newline>Provide:\<newline>{\<newline>'' @
     ''  "document_type": "[invoice/receipt/form/report/research_paper/letter/other]",\<newline>'' @
     ''  "confidence": 0.0-1.0,\<newline>'' @
     ''  "text_content": "all readable text",\<newline>'' @
     ''  "key_fields": {\<newline>    "field_name": "value"\<newline>  },\<newline>'' @
     ''  "tables": [\<newline>    {"description": "table description", "data": []}\<newline>  ],\<newline>'' @
     ''  "amounts": {"subtotal": "", "tax": "", "total": ""},\<newline>'' @
     ''  "dates": [],\<newline>  "important_info": []\<newline>}\<newline>\<newline>'' @
     ''Extract EVERYTHING you see. Return ONLY valid JSON, no explanation.''\<close>

definition simple_page_record :: "pydict \<Rightarrow> nat \<Rightarrow> py_error + pydict" where
  "simple_page_record result i =
     (case dict_item result ''success'' of
        Inl e \<Rightarrow> Inl e
      | Inr ok \<Rightarrow>
          if truthy ok then
            (case dict_item result ''content'' of
               Inl e \<Rightarrow> Inl e
             | Inr content \<Rightarrow> setitem (parse_response content) ''page_number'' (PNum (of_nat i)))
          else
            (case dict_item result ''error'' of
               Inl e \<Rightarrow> Inl e
             | Inr err \<Rightarrow> Inr [(''page_number'', PNum (of_nat i)), (''error'', err)]))"

fun extract_all_pages ::
  "('g, 'img) gateway \<Rightarrow> 'g \<Rightarrow> nat \<Rightarrow> 'img list \<Rightarrow> py_error + pydict list" where
  "extract_all_pages gw g i [] = Inr []"
| "extract_all_pages gw g i (img # rest) =
     (case gw g \<lparr>req_text = simple_prompt i, req_images = [img],
                 req_max_tokens = 800, req_temperature = 1 / 10\<rparr> of
        (result, g') \<Rightarrow>
          (case simple_page_record result i of
             Inl e \<Rightarrow> Inl e
           | Inr extraction \<Rightarrow>
               (case extract_all_pages gw g' (Suc i) rest of
                  Inl e \<Rightarrow> Inl e
                | Inr results \<Rightarrow> Inr (extraction # results))))"

definition format_single_page :: "pydict \<Rightarrow> pydict" where
  "format_single_page extraction =
     [(''document_type'', dict_get_default extraction ''document_type'' (PStr ''unknown'')),
      (''total_pages'', PNum 1),
      (''confidence'', dict_get_default extraction ''confidence'' (PNum (7 / 10))),
      (''extracted_content'', PDict extraction),
      (''processing_time'', PStr ''fast''),
      (''status'', PStr ''success'')]"

definition simple_confidences :: "pydict list \<Rightarrow> pyval list" where
  "simple_confidences extractions =
     map (\<lambda>e. dict_get_default e ''confidence'' (PNum (5 / 10)))
       (filter (\<lambda>e. has_key e ''confidence'') extractions)"

definition combine_pages :: "pydict list \<Rightarrow> py_error + pydict" where
  "combine_pages extractions =
     (case extractions of
        [] \<Rightarrow> Inl IndexError
      | first # _ \<Rightarrow>
          (let doc_type = dict_get_default first ''document_type'' (PStr ''unknown'') in
           case average (simple_confidences extractions) (7 / 10) of
             Inl e \<Rightarrow> Inl e
           | Inr avg_confidence \<Rightarrow>
               Inr [(''document_type'', doc_type),
                    (''total_pages'', PNum (of_nat (length extractions))),
                    (''confidence'', PNum avg_confidence),
                    (''extracted_content'',
                       PDict [(''document_type'', doc_type),
                              (''pages'', PList (map PDict extractions))]),
                    (''processing_time'', PStr ''optimized''),
                    (''status'', PStr ''success'')]))"

text \<open>The log line of \<^verbatim>\<open>process_document\<close> formats the confidence with \<^verbatim>\<open>:.2f\<close>,
  which only a number takes.\<close>

fun format_2f :: "pyval \<Rightarrow> py_error + unit" where
  "format_2f (PNum n) = Inr ()"
| "format_2f (PBool b) = Inr ()"
| "format_2f (PStr s) = Inl ValueError"
| "format_2f _ = Inl TypeError"

definition simple_process_document ::
  "('g, 'img) gateway \<Rightarrow> 'g \<Rightarrow> 'img list \<Rightarrow> py_error + pydict" where
  "simple_process_document gw g images =
     (case extract_all_pages gw g 1 images of
        Inl e \<Rightarrow> Inl e
      | Inr extractions \<Rightarrow>
          (case (if length images = 1 then
                   (case extractions of
                      [] \<Rightarrow> Inl IndexError
                    | first # _ \<Rightarrow> Inr (format_single_page first))
                 else combine_pages extractions) of
             Inl e \<Rightarrow> Inl e
           | Inr final_result \<Rightarrow>
               (case format_2f (dict_get_default final_result ''confidence'' (PNum 0)) of
                  Inl e \<Rightarrow> Inl e
                | Inr _ \<Rightarrow> Inr final_result)))"

section \<open>An invariant of the recognizer\<close>

text \<open>Both normalizers hand the decoder a span that starts with an opening brace, and
  then treat the result as a dict. The recognizer can only finish such a text with an
  object: its bottom frame stays an object frame until the last brace closes it.\<close>

fun is_obj_frame :: "frame \<Rightarrow> bool" where
  "is_obj_frame (FArr xs) = False"
| "is_obj_frame _ = True"

definition obj_bottom :: "frame list \<Rightarrow> bool" where
  "obj_bottom st = (st \<noteq> [] \<and> is_obj_frame (last st))"

fun dict_run :: "pstate \<Rightarrow> bool" where
  "dict_run (Finished v, st) = (\<exists>d. v = PDict d)"
| "dict_run (m, st) = obj_bottom st"

section \<open>The model gateway\<close>

















section \<open>The steps of the normalizers by name\<close>

text \<open>The text each normalizer searches, after its substitutions, and what the decoder
  makes of the span found in it (\<open>None\<close>: no span, or a span the decoder rejects).\<close>

definition fast_cleaned :: "string \<Rightarrow> string" where
  "fast_cleaned response = sub_fences (sub_think response)"

definition simple_cleaned :: "string \<Rightarrow> string" where
  "simple_cleaned response = sub_think (sub_lit_ws ''```'' (sub_lit_ws ''```json'' response))"

definition fast_span :: "string \<Rightarrow> pyval option" where
  "fast_span response =
     (case search_object (fast_cleaned response) of None \<Rightarrow> None | Some m \<Rightarrow> json_loads m)"

definition simple_span :: "string \<Rightarrow> pyval option" where
  "simple_span response =
     (case search_greedy (simple_cleaned response) of None \<Rightarrow> None | Some m \<Rightarrow> json_loads m)"

section \<open>The wrappings of a model answer\<close>



section \<open>The aggregation rules, as the specification words them\<close>



definition successful :: "pydict \<Rightarrow> bool" where
  "successful e = truthy (dict_get e ''success'')"

definition first_successful_type :: "pydict list \<Rightarrow> pyval" where
  "first_successful_type extractions =
     (case find (\<lambda>e. successful e \<and> has_key e ''type'') extractions of
        None \<Rightarrow> PStr ''document''
      | Some e \<Rightarrow> dict_get e ''type'')"


section \<open>Gateways and documents for the concrete runs\<close>

text \<open>A gateway whose every call times out, and one whose model answers with an object
  that carries \<^verbatim>\<open>page\<close> and \<^verbatim>\<open>success\<close> entries of its own.\<close>

definition failing_gateway :: "(unit, nat) gateway" where
  "failing_gateway g req =
     ([(''success'', PBool False), (''content'', PStr ''''), (''error'', PStr ''Request timeout'')], g)"

definition invoice_gateway :: "(unit, nat) gateway" where
  \<open>invoice_gateway g req =
     ([(''success'', PBool True),
       (''content'', PStr ''{"type":"invoice","page":7,"success":false}'')], g)\<close>

definition five_timeouts :: pydict where
  "five_timeouts =
     [(''document_type'', PStr ''document''), (''total_pages'', PNum 5),
      (''processed_pages'', PNum 3), (''confidence'', PNum (6 / 10)),
      (''extracted_content'',
       PDict
        [(''pages'',
          PList
           [PDict
             [(''page'', PNum 1), (''success'', PBool False),
              (''error'', PStr ''Request timeout''),
              (''type'', PStr ''unknown''), (''confidence'', PNum 0)],
            PDict
             [(''page'', PNum 2), (''success'', PBool False),
              (''error'', PStr ''Request timeout''),
              (''type'', PStr ''unknown''), (''confidence'', PNum 0)],
            PDict
             [(''page'', PNum 3), (''success'', PBool False),
              (''error'', PStr ''Request timeout''),
              (''type'', PStr ''unknown''), (''confidence'', PNum 0)]])]),
      (''status'', PStr ''success''),
      (''note'', PStr ''Fast mode - first 3 pages only'')]"

definition two_timeouts_simple :: pydict where
  "two_timeouts_simple =
     [(''document_type'', PStr ''unknown''), (''total_pages'', PNum 2),
      (''confidence'', PNum (7 / 10)),
      (''extracted_content'',
       PDict
        [(''document_type'', PStr ''unknown''),
         (''pages'',
          PList
           [PDict [(''page_number'', PNum 1), (''error'', PStr ''Request timeout'')],
            PDict [(''page_number'', PNum 2), (''error'', PStr ''Request timeout'')]])]),
      (''processing_time'', PStr ''optimized''),
      (''status'', PStr ''success'')]"

definition two_timeouts_fast :: pydict where
  "two_timeouts_fast =
     [(''document_type'', PStr ''document''), (''total_pages'', PNum 2),
      (''processed_pages'', PNum 2), (''confidence'', PNum (6 / 10)),
      (''extracted_content'',
       PDict
        [(''pages'',
          PList
           [PDict
             [(''page'', PNum 1), (''success'', PBool False),
              (''error'', PStr ''Request timeout''),
              (''type'', PStr ''unknown''), (''confidence'', PNum 0)],
            PDict
             [(''page'', PNum 2), (''success'', PBool False),
              (''error'', PStr ''Request timeout''),
              (''type'', PStr ''unknown''), (''confidence'', PNum 0)]])]),
      (''status'', PStr ''success''),
      (''note'', PStr ''Fast mode'')]"

definition timeout_answer :: pydict where
  "timeout_answer =
     [(''success'', PBool False), (''content'', PStr ''''), (''error'', PStr ''Request timeout'')]"

definition invoice_answer :: pydict where
  \<open>invoice_answer =
     [(''success'', PBool True),
      (''content'', PStr ''{"type":"invoice","page":7,"success":false}'')]\<close>

definition stamped_record :: pydict where
  "stamped_record = [(''type'', PStr ''invoice''), (''page'', PNum 3), (''success'', PBool True)]"

text \<open>Per-page records: of the fast processor, a failed page followed by two that
  succeeded; of the simple processor, two pages whose confidence has three decimals, and
  a failed page followed by one whose object names its type.\<close>

definition page_ok :: "nat \<Rightarrow> rat \<Rightarrow> pydict" where
  "page_ok i c =
     [(''type'', PStr ''invoice''), (''confidence'', PNum c),
      (''page'', PNum (of_nat i)), (''success'', PBool True)]"

definition page_failed :: "nat \<Rightarrow> pydict" where
  "page_failed i =
     [(''page'', PNum (of_nat i)), (''success'', PBool False),
      (''error'', PStr ''Request timeout''), (''type'', PStr ''unknown''),
      (''confidence'', PNum 0)]"

definition mixed_pages :: "pydict list" where
  "mixed_pages = [page_failed 1, page_ok 2 (9 / 10), page_ok 3 (85 / 100)]"

definition mixed_result_fast :: pydict where
  "mixed_result_fast =
     [(''document_type'', PStr ''invoice''), (''total_pages'', PNum 3),
      (''processed_pages'', PNum 3), (''confidence'', PNum (88 / 100)),
      (''extracted_content'', PDict [(''pages'', PList (map PDict mixed_pages))]),
      (''status'', PStr ''success''), (''note'', PStr ''Fast mode'')]"

definition mixed_result_simple :: pydict where
  "mixed_result_simple =
     [(''document_type'', PStr ''unknown''), (''total_pages'', PNum 3),
      (''confidence'', PNum (7 / 12)),
      (''extracted_content'',
         PDict [(''document_type'', PStr ''unknown''),
                (''pages'', PList (map PDict mixed_pages))]),
      (''processing_time'', PStr ''optimized''), (''status'', PStr ''success'')]"


definition simple_pages :: "pydict list" where
  "simple_pages =
     [[(''page_number'', PNum 1), (''error'', PStr ''Request timeout'')],
      [(''success'', PBool True), (''type'', PStr ''invoice''),
       (''document_type'', PStr ''invoice''), (''confidence'', PNum (9 / 10)),
       (''page_number'', PNum 2)]]"









text \<open>A gateway all of whose answers report a failure.\<close>

definition always_fails :: "('g, 'img) gateway \<Rightarrow> bool" where
  "always_fails gw = (\<forall>g req. \<exists>ok. dict_item (fst (gw g req)) ''success'' = Inr ok \<and> \<not> truthy ok)"

section \<open>What the decoder returns for a text that starts with a brace\<close>

lemma deliver_dict_run:
  "deliver v st = Some s' \<Longrightarrow> (st = [] \<and> (\<exists>d. v = PDict d)) \<or> obj_bottom st \<Longrightarrow> dict_run s'"
  by (cases "(v, st)" rule: deliver.cases) (auto simp: obj_bottom_def split: if_splits)

lemma close_top_dict_run:
  "close_top t st = Some s' \<Longrightarrow> obj_bottom st \<Longrightarrow> dict_run s'"
proof (cases "(t, st)" rule: close_top.cases)
  case (1 items st')
  assume c: "close_top t st = Some s'" and b: "obj_bottom st"
  from b 1 have "obj_bottom st'"
    by (auto simp: obj_bottom_def split: if_splits)
  with c 1 show ?thesis
    by (auto dest: deliver_dict_run)
next
  case (2 ms st')
  assume c: "close_top t st = Some s'" and b: "obj_bottom st"
  from b 2 have "st' = [] \<or> obj_bottom st'"
    by (auto simp: obj_bottom_def split: if_splits)
  with c 2 show ?thesis
    by (auto dest: deliver_dict_run)
qed auto

lemma start_value_dict_run:
  "start_value t st = Some s' \<Longrightarrow> obj_bottom st \<Longrightarrow> dict_run s'"
  by (cases "(t, st)" rule: start_value.cases) (auto simp: obj_bottom_def intro: deliver_dict_run)

lemma take_key_dict_run:
  "take_key t st = Some s' \<Longrightarrow> obj_bottom st \<Longrightarrow> dict_run s'"
  by (cases "(t, st)" rule: take_key.cases) (auto simp: obj_bottom_def)

lemma next_item_dict_run:
  "next_item st = Some s' \<Longrightarrow> obj_bottom st \<Longrightarrow> dict_run s'"
  by (cases st rule: next_item.cases) (auto simp: obj_bottom_def)

lemma step_dict_run:
  "step s t = Some s' \<Longrightarrow> dict_run s \<Longrightarrow> dict_run s'"
  by (cases "(s, t)" rule: step.cases)
    (auto split: if_splits dest: start_value_dict_run close_top_dict_run take_key_dict_run next_item_dict_run)

lemma run_dict_run:
  "run s ts = Some s' \<Longrightarrow> dict_run s \<Longrightarrow> dict_run s'"
  by (induction ts arbitrary: s) (auto split: option.splits dest: step_dict_run)

lemma tokenize_brace:
  "tokenize (CHR ''{'' # cs) = Some ts \<Longrightarrow> \<exists>ts'. ts = TLBrace # ts'"
  by (auto simp: json_ws_def)

lemma json_loads_object:
  assumes "json_loads (CHR ''{'' # cs) = Some v"
  shows "\<exists>d. v = PDict d"
proof -
  from assms obtain ts st where t: "tokenize (CHR ''{'' # cs) = Some ts"
    and r: "run (WantValue, []) ts = Some (Finished v, st)"
    by (auto simp: json_loads_def split: option.splits prod.splits pmode.splits)
  from t obtain ts' where ts: "ts = TLBrace # ts'"
    using tokenize_brace by blast
  from r ts have "run (ObjStart, [FObj []]) ts' = Some (Finished v, st)"
    by simp
  moreover have "dict_run (ObjStart, [FObj []])"
    by (simp add: obj_bottom_def)
  ultimately have "dict_run (Finished v, st)"
    by (rule run_dict_run)
  then show ?thesis by simp
qed

text \<open>The spans the two searches return start with a brace, so both normalizers
  return a dict for every text.\<close>

lemma groups_end_length: "groups_end s = Some r \<Longrightarrow> length r < length s"
proof (induction s arbitrary: r rule: groups_end.induct)
  case 1
  then show ?case by simp
next
  case (2 c cs)
  show ?case
  proof (cases "c = CHR ''}''")
    case True
    with 2 show ?thesis by simp
  next
    case False
    with "2.prems" obtain d ds where c: "c = CHR ''{''" and dw: "dropWhile plain cs = d # ds"
      and d: "d = CHR ''}''" and g: "groups_end (dropWhile plain ds) = Some r"
      by (auto split: if_splits list.splits)
    from "2.IH" [OF False c dw d g] have "length r < length (dropWhile plain ds)" .
    moreover have "length (dropWhile plain ds) \<le> length ds" by (rule length_dropWhile_le)
    moreover have "length (dropWhile plain cs) \<le> length cs" by (rule length_dropWhile_le)
    ultimately show ?thesis using dw by simp
  qed
qed

lemma match_at_brace: "match_at s = Some m \<Longrightarrow> \<exists>cs. m = CHR ''{'' # cs"
proof -
  assume a: "match_at s = Some m"
  then obtain cs rest where s: "s = CHR ''{'' # cs" and g: "groups_end (dropWhile plain cs) = Some rest"
    and m: "m = take (length s - length rest) s"
    by (auto simp: match_at_def split: list.splits if_splits option.splits)
  have "length rest < length (dropWhile plain cs)" by (rule groups_end_length [OF g])
  moreover have "length (dropWhile plain cs) \<le> length cs" by (rule length_dropWhile_le)
  ultimately have "length s - length rest = Suc (length cs - length rest)"
    using s by simp
  with m s show ?thesis by simp
qed

lemma search_object_brace: "search_object s = Some m \<Longrightarrow> \<exists>cs. m = CHR ''{'' # cs"
  by (induction s) (auto split: option.splits dest: match_at_brace)

lemma search_greedy_brace: "search_greedy s = Some m \<Longrightarrow> \<exists>cs. m = CHR ''{'' # cs"
proof -
  assume a: "search_greedy s = Some m"
  then obtain c cs where d: "dropWhile (\<lambda>c. c \<noteq> CHR ''{'') s = c # cs" and m: "\<exists>t. m = c # t"
    by (auto simp: search_greedy_def split: list.splits)
  from d have "c = hd (dropWhile (\<lambda>c. c \<noteq> CHR ''{'') s)" by simp
  moreover from d have "dropWhile (\<lambda>c. c \<noteq> CHR ''{'') s \<noteq> []" by simp
  ultimately have "c = CHR ''{''"
    using hd_dropWhile [of "\<lambda>c. c \<noteq> CHR ''{''" s] by simp
  with m show ?thesis by simp
qed

lemma parse_json_text: "\<exists>d. parse_json (PStr s) = Inr (PDict d)"
  by (auto simp: Let_def split: option.splits dest!: search_object_brace dest: json_loads_object)

lemma parse_response_dict: "\<exists>d. parse_response v = PDict d"
  by (cases v) (auto simp: Let_def split: option.splits dest!: search_greedy_brace dest: json_loads_object)

section \<open>The document aggregator of the fast processor\<close>

lemma extract_pages_fast_length:
  "extract_pages_fast gw g i imgs = Inr exts \<Longrightarrow> length exts = length imgs"
  by (induction imgs arbitrary: g i exts) (auto split: prod.splits sum.splits)

lemma combine_simple_fields:
  assumes "combine_simple exts n = Inr r"
  shows "dict_item r ''processed_pages'' = Inr (PNum (of_nat (length exts)))"
    and "dict_item r ''total_pages'' = Inr (PNum (of_nat n))"
    and "dict_item r ''status'' = Inr (PStr ''success'')"
    and "dict_item r ''document_type'' = Inr (first_type exts)"
  using assms by (auto simp: combine_simple_def dict_item_def split: sum.splits)

text \<open>
  Claim C4. Under the fast profile, which keeps at most three pages, a document of
  \<open>P\<close> pages yields a result whose \<^verbatim>\<open>processed_pages\<close> is \<open>min P 3\<close> and whose
  \<^verbatim>\<open>total_pages\<close> is \<open>P\<close>.
\<close>

theorem process_document_page_counts:
  assumes "process_document gw g images = Inr r"
  shows "dict_item r ''processed_pages'' = Inr (PNum (of_nat (min (length images) 3)))
       \<and> dict_item r ''total_pages'' = Inr (PNum (of_nat (length images)))"
proof -
  from assms obtain exts where e: "extract_pages_fast gw g 1 (take (min 3 (length images)) images) = Inr exts"
    and c: "combine_simple exts (length images) = Inr r"
    by (auto simp: process_document_def Let_def split: sum.splits)
  from extract_pages_fast_length [OF e] have "length exts = min (length images) 3"
    by (simp add: min.commute)
  with combine_simple_fields(1,2) [OF c] show ?thesis
    by simp
qed

theorem process_document_page_counts_witness:
  "process_document failing_gateway () [1, 2, 3, 4, 5 :: nat] = Inr five_timeouts
   \<and> dict_item five_timeouts ''processed_pages'' = Inr (PNum 3)
   \<and> dict_item five_timeouts ''total_pages'' = Inr (PNum 5)"
proof -
  have r: "process_document failing_gateway () [1, 2, 3, 4, 5 :: nat] = Inr five_timeouts"
    by code_simp
  from process_document_page_counts [OF r] show ?thesis
    using r by simp
qed

section \<open>The status of a document result\<close>

lemma map_of_dict_set: "map_of (dict_set d k v) = (map_of d)(k \<mapsto> v)"
  by (simp add: dict_set_def update_conv')

lemma failed_fast_page_record:
  assumes "dict_item result ''success'' = Inr ok" and "\<not> truthy ok"
  shows "fast_page_record result n =
           Inr [(''page'', PNum (of_nat n)), (''success'', PBool False),
                (''error'', dict_get_default result ''error'' (PStr ''Unknown error'')),
                (''type'', PStr ''unknown''), (''confidence'', PNum 0)]"
  using assms by (simp add: fast_page_record_def)

lemma extract_pages_fast_all_fail:
  assumes "always_fails gw"
  shows "\<exists>exts. extract_pages_fast gw g i imgs = Inr exts
           \<and> (\<forall>e \<in> set exts. dict_get e ''success'' = PBool False)"
proof (induction imgs arbitrary: g i)
  case Nil
  show ?case by simp
next
  case (Cons img rest)
  let ?req = "\<lparr>req_text = fast_prompt, req_images = [img], req_max_tokens = 500,
                req_temperature = 1 / 10\<rparr>"
  obtain result g' where q: "gw g ?req = (result, g')" by (cases "gw g ?req")
  from assms obtain ok where ok: "dict_item (fst (gw g ?req)) ''success'' = Inr ok" "\<not> truthy ok"
    unfolding always_fails_def by blast
  with q have s: "dict_item result ''success'' = Inr ok" by simp
  from Cons.IH [of g' "Suc i"] obtain exts where
    e: "extract_pages_fast gw g' (Suc i) rest = Inr exts"
    and f: "\<forall>e \<in> set exts. dict_get e ''success'' = PBool False" by blast
  show ?case
    using q e f failed_fast_page_record [OF s ok(2), of i]
    by (simp add: extract_page_fast_def dict_get_def)
qed

lemma fast_confidences_all_fail:
  "\<forall>e \<in> set exts. dict_get e ''success'' = PBool False \<Longrightarrow> fast_confidences exts = []"
  by (induction exts) (auto simp: fast_confidences_def)

lemma process_document_status:
  "process_document gw g images = Inr r \<Longrightarrow> dict_item r ''status'' = Inr (PStr ''success'')"
  by (auto simp: process_document_def Let_def split: sum.splits dest: combine_simple_fields(3))

lemma combine_pages_status:
  "combine_pages exts = Inr r \<Longrightarrow> dict_item r ''status'' = Inr (PStr ''success'')"
  by (auto simp: combine_pages_def Let_def dict_item_def split: sum.splits list.splits)

lemma simple_process_document_status:
  "simple_process_document gw g images = Inr r \<Longrightarrow> dict_item r ''status'' = Inr (PStr ''success'')"
  by (auto simp: simple_process_document_def format_single_page_def dict_item_def
      split: sum.splits list.splits if_splits dest: combine_pages_status)

lemma process_document_all_fail:
  assumes "always_fails gw"
  shows "\<exists>r. process_document gw g images = Inr r
           \<and> dict_item r ''status'' = Inr (PStr ''success'')
           \<and> dict_item r ''confidence'' = Inr (PNum (6 / 10))"
proof -
  from extract_pages_fast_all_fail [OF assms] obtain exts where
    e: "extract_pages_fast gw g 1 (take (min 3 (length images)) images) = Inr exts"
    and f: "\<forall>e \<in> set exts. dict_get e ''success'' = PBool False" by blast
  have "py_round2 (6 / 10) = 6 / 10"
    by (simp add: py_round2_def Let_def)
  with e fast_confidences_all_fail [OF f] show ?thesis
    by (simp add: process_document_def combine_simple_def average_def dict_item_def)
qed

lemma failing_gateway_fails: "always_fails failing_gateway"
  by (simp add: always_fails_def failing_gateway_def dict_item_def)

text \<open>
  Claim C9. Whatever the pages and the gateway's answers, a result that either processor
  returns has the status \<^verbatim>\<open>success\<close>; when every page fails, the fast processor does
  return a result, with that status and the default confidence. No other status exists.
\<close>

theorem status_always_success:
  "(process_document gw g images = Inr r \<longrightarrow> dict_item r ''status'' = Inr (PStr ''success''))
   \<and> (simple_process_document gw g images = Inr r' \<longrightarrow>
        dict_item r' ''status'' = Inr (PStr ''success''))
   \<and> (always_fails gw \<longrightarrow>
        (\<exists>r. process_document gw g images = Inr r
           \<and> dict_item r ''status'' = Inr (PStr ''success'')
           \<and> dict_item r ''confidence'' = Inr (PNum (6 / 10))))"
proof (intro conjI impI)
  assume "process_document gw g images = Inr r"
  then show "dict_item r ''status'' = Inr (PStr ''success'')"
    by (rule process_document_status)
next
  assume "simple_process_document gw g images = Inr r'"
  then show "dict_item r' ''status'' = Inr (PStr ''success'')"
    by (rule simple_process_document_status)
next
  assume "always_fails gw"
  then show "\<exists>r. process_document gw g images = Inr r
           \<and> dict_item r ''status'' = Inr (PStr ''success'')
           \<and> dict_item r ''confidence'' = Inr (PNum (6 / 10))"
    by (rule process_document_all_fail)
qed

theorem status_always_success_witness:
  "process_document failing_gateway () [1, 2 :: nat] = Inr two_timeouts_fast
   \<and> dict_item two_timeouts_fast ''status'' = Inr (PStr ''success'')
   \<and> simple_process_document failing_gateway () [1, 2 :: nat] = Inr two_timeouts_simple
   \<and> dict_item two_timeouts_simple ''status'' = Inr (PStr ''success'')
   \<and> always_fails failing_gateway"
proof -
  have a: "process_document failing_gateway () [1, 2 :: nat] = Inr two_timeouts_fast"
    by code_simp
  have b: "simple_process_document failing_gateway () [1, 2 :: nat] = Inr two_timeouts_simple"
    by code_simp
  from status_always_success [of failing_gateway "()" "[1, 2]" two_timeouts_fast
      two_timeouts_simple] a b failing_gateway_fails
  show ?thesis by simp
qed

section \<open>The page extractors\<close>

text \<open>
  Claim C8, as amended. When the gateway's answer reports a failure, the fast extractor
  returns, without raising, the record with \<^verbatim>\<open>page\<close> the page number, \<^verbatim>\<open>success\<close> false,
  \<^verbatim>\<open>error\<close> the answer's reason (\<^verbatim>\<open>Unknown error\<close> when the answer has none), \<^verbatim>\<open>type\<close>
  \<^verbatim>\<open>unknown\<close> and \<^verbatim>\<open>confidence\<close> 0. The simple extractor records only \<^verbatim>\<open>page_number\<close>
  and \<^verbatim>\<open>error\<close>.
\<close>

theorem failed_page_record:
  assumes "gw g \<lparr>req_text = fast_prompt, req_images = [img], req_max_tokens = 500,
                 req_temperature = 1 / 10\<rparr> = (result, g')"
    and "dict_item result ''success'' = Inr ok"
    and "\<not> truthy ok"
  shows "extract_page_fast gw g img n =
           (Inr [(''page'', PNum (of_nat n)), (''success'', PBool False),
                 (''error'', dict_get_default result ''error'' (PStr ''Unknown error'')),
                 (''type'', PStr ''unknown''), (''confidence'', PNum 0)], g')
       \<and> (\<forall>err. dict_item result ''error'' = Inr err \<longrightarrow>
            simple_page_record result n = Inr [(''page_number'', PNum (of_nat n)), (''error'', err)])"
  using assms failed_fast_page_record [OF assms(2,3), of n]
  by (simp add: extract_page_fast_def simple_page_record_def)

theorem failed_page_record_witness:
  "extract_page_fast failing_gateway () (0 :: nat) 2 =
     (Inr [(''page'', PNum 2), (''success'', PBool False), (''error'', PStr ''Request timeout''),
           (''type'', PStr ''unknown''), (''confidence'', PNum 0)], ())
   \<and> simple_page_record timeout_answer 2 =
       Inr [(''page_number'', PNum 2), (''error'', PStr ''Request timeout'')]"
proof -
  have a: "failing_gateway () \<lparr>req_text = fast_prompt, req_images = [0 :: nat],
             req_max_tokens = 500, req_temperature = 1 / 10\<rparr> = (timeout_answer, ())"
    by (simp add: failing_gateway_def timeout_answer_def)
  have b: "dict_item timeout_answer ''success'' = Inr (PBool False)"
    by (simp add: timeout_answer_def dict_item_def)
  have c: "dict_item timeout_answer ''error'' = Inr (PStr ''Request timeout'')"
    by (simp add: timeout_answer_def dict_item_def)
  have d: "dict_get_default timeout_answer ''error'' (PStr ''Unknown error'') = PStr ''Request timeout''"
    by (simp add: timeout_answer_def dict_get_default_def)
  from failed_page_record [where gw = failing_gateway and g = "()" and img = "0 :: nat"
      and result = timeout_answer and g' = "()" and ok = "PBool False" and n = 2] a b c d
  show ?thesis
    by simp
qed

text \<open>
  Claim C8 as stated fails on the simple extractor: its record of a failed page has no
  \<^verbatim>\<open>page\<close>, \<^verbatim>\<open>success\<close>, \<^verbatim>\<open>type\<close> or \<^verbatim>\<open>confidence\<close> entry.
\<close>

theorem simple_failed_page_record_shape:
  "simple_page_record timeout_answer 1 =
     Inr [(''page_number'', PNum 1), (''error'', PStr ''Request timeout'')]
   \<and> \<not> has_key [(''page_number'', PNum 1), (''error'', PStr ''Request timeout'')] ''success''
   \<and> \<not> has_key [(''page_number'', PNum 1), (''error'', PStr ''Request timeout'')] ''page''
   \<and> \<not> has_key [(''page_number'', PNum 1), (''error'', PStr ''Request timeout'')] ''type''
   \<and> \<not> has_key [(''page_number'', PNum 1), (''error'', PStr ''Request timeout'')] ''confidence''"
  by (simp add: simple_page_record_def timeout_answer_def dict_item_def has_key_def)

text \<open>
  Claim C10. For a page whose gateway call succeeds, every record the fast extractor
  returns has \<^verbatim>\<open>page\<close> equal to the page number and \<^verbatim>\<open>success\<close> true, whatever the
  model's own object says under these keys; and it does return one whenever the
  content is text.
\<close>

theorem page_and_success_stamped:
  assumes "gw g \<lparr>req_text = fast_prompt, req_images = [img], req_max_tokens = 500,
                 req_temperature = 1 / 10\<rparr> = (result, g')"
    and "dict_item result ''success'' = Inr ok"
    and "truthy ok"
    and "dict_item result ''content'' = Inr content"
  shows "(\<forall>rec. fst (extract_page_fast gw g img n) = Inr rec \<longrightarrow>
            dict_item rec ''page'' = Inr (PNum (of_nat n))
          \<and> dict_item rec ''success'' = Inr (PBool True))
       \<and> ((\<exists>s. content = PStr s) \<longrightarrow> (\<exists>rec. fst (extract_page_fast gw g img n) = Inr rec))"
proof (intro conjI allI impI)
  fix rec
  assume r: "fst (extract_page_fast gw g img n) = Inr rec"
  with assms obtain parsed d where "parse_json content = Inr parsed"
    and "setitem parsed ''page'' (PNum (of_nat n)) = Inr d"
    and "rec = dict_set d ''success'' (PBool True)"
    by (auto simp: extract_page_fast_def fast_page_record_def split: sum.splits)
  moreover then obtain d0 where "parsed = PDict d0" "d = dict_set d0 ''page'' (PNum (of_nat n))"
    by (cases parsed) auto
  ultimately show "dict_item rec ''page'' = Inr (PNum (of_nat n))"
    and "dict_item rec ''success'' = Inr (PBool True)"
    by (simp_all add: dict_item_def map_of_dict_set)
next
  assume "\<exists>s. content = PStr s"
  then obtain s where s: "content = PStr s" by blast
  from parse_json_text [of s] obtain d where "parse_json (PStr s) = Inr (PDict d)" by blast
  with assms s show "\<exists>rec. fst (extract_page_fast gw g img n) = Inr rec"
    by (simp add: extract_page_fast_def fast_page_record_def)
qed

theorem page_and_success_stamped_witness:
  "fst (extract_page_fast invoice_gateway () (0 :: nat) 3) = Inr stamped_record
   \<and> dict_item stamped_record ''page'' = Inr (PNum 3)
   \<and> dict_item stamped_record ''success'' = Inr (PBool True)"
proof -
  have a: "invoice_gateway () \<lparr>req_text = fast_prompt, req_images = [0 :: nat],
             req_max_tokens = 500, req_temperature = 1 / 10\<rparr> = (invoice_answer, ())"
    by (simp add: invoice_gateway_def invoice_answer_def)
  have b: "dict_item invoice_answer ''success'' = Inr (PBool True)"
    by (simp add: invoice_answer_def dict_item_def)
  have c: \<open>dict_item invoice_answer ''content'' =
             Inr (PStr ''{"type":"invoice","page":7,"success":false}'')\<close>
    by (simp add: invoice_answer_def dict_item_def)
  have r: "fst (extract_page_fast invoice_gateway () (0 :: nat) 3) = Inr stamped_record"
    by code_simp
  from page_and_success_stamped [where gw = invoice_gateway and g = "()" and img = "0 :: nat"
      and result = invoice_answer and g' = "()" and ok = "PBool True" and n = 3, OF a b _ c] r
  show ?thesis
    by simp
qed

section \<open>Document type and confidence of a document result\<close>

lemma first_type_selected: "first_type exts = first_successful_type exts"
  by (induction exts)
    (auto simp: first_successful_type_def successful_def has_key_def dict_get_def split: option.splits bool.splits)




lemma mixed_fast: "combine_simple mixed_pages 3 = Inr mixed_result_fast"
  by code_simp

lemma mixed_simple: "combine_pages mixed_pages = Inr mixed_result_simple"
  by code_simp

text \<open>
  Claim C6, as amended. The fast aggregator's \<^verbatim>\<open>document_type\<close> is the \<^verbatim>\<open>type\<close> of the
  first extraction in page order that is successful and has a \<^verbatim>\<open>type\<close> key, and
  \<^verbatim>\<open>document\<close> when there is none. The simple aggregator's is the \<^verbatim>\<open>document_type\<close>
  entry of the first page, whether that page succeeded or not, and \<^verbatim>\<open>unknown\<close> when the
  first page has none.
\<close>

theorem document_type_selection:
  "(combine_simple exts n = Inr r \<longrightarrow> dict_item r ''document_type'' = Inr (first_successful_type exts))
   \<and> (combine_pages (e # es) = Inr r' \<longrightarrow>
        dict_item r' ''document_type'' = Inr (dict_get_default e ''document_type'' (PStr ''unknown'')))"
  by (auto simp: combine_simple_def combine_pages_def first_type_selected dict_item_def Let_def
      split: sum.splits)

theorem document_type_selection_witness:
  "combine_simple mixed_pages 3 = Inr mixed_result_fast
   \<and> dict_item mixed_result_fast ''document_type'' = Inr (PStr ''invoice'')
   \<and> first_successful_type mixed_pages = PStr ''invoice''
   \<and> combine_pages mixed_pages = Inr mixed_result_simple
   \<and> dict_item mixed_result_simple ''document_type'' = Inr (PStr ''unknown'')"
proof -
  have s: "first_successful_type mixed_pages = PStr ''invoice''"
    by code_simp
  have d: "dict_get_default (page_failed 1) ''document_type'' (PStr ''unknown'') = PStr ''unknown''"
    by code_simp
  have m: "mixed_pages = page_failed 1 # [page_ok 2 (9 / 10), page_ok 3 (85 / 100)]"
    by (simp add: mixed_pages_def)
  from document_type_selection [of mixed_pages 3 mixed_result_fast "page_failed 1"
      "[page_ok 2 (9 / 10), page_ok 3 (85 / 100)]" mixed_result_simple]
    mixed_fast mixed_simple s d m
  show ?thesis by simp
qed

text \<open>
  Claim C6 as stated fails on the simple aggregator: the first page failed, the second
  one succeeded with the type \<^verbatim>\<open>invoice\<close>, and the document type is \<^verbatim>\<open>unknown\<close>.
\<close>

theorem simple_type_is_first_page:
  "(case combine_pages simple_pages of
      Inl e \<Rightarrow> Inl e
    | Inr r \<Rightarrow> dict_item r ''document_type'') = Inr (PStr ''unknown'')
   \<and> first_successful_type simple_pages = PStr ''invoice''"
  by code_simp










section \<open>The response normalizers\<close>

lemma parse_json_recovered:
  "fast_span s = Some v \<Longrightarrow> parse_json (PStr s) = Inr v"
  by (auto simp: fast_span_def fast_cleaned_def Let_def split: option.splits)

lemma parse_json_degraded:
  "fast_span s = None \<Longrightarrow>
     parse_json (PStr s) =
       Inr (PDict [(''type'', PStr ''document''),
                   (''confidence'', PNum (if search_object (fast_cleaned s) = None then 6 / 10 else 5 / 10)),
                   (if search_object (fast_cleaned s) = None then ''main_content'' else ''raw'',
                    PStr (take 200 (fast_cleaned s)))])"
  by (auto simp: fast_span_def fast_cleaned_def Let_def split: option.splits)


lemma parse_response_degraded:
  "simple_span s = None \<Longrightarrow>
     parse_response (PStr s) = PDict [(''raw_content'', PStr (simple_cleaned s))]"
  by (auto simp: simple_span_def simple_cleaned_def Let_def split: option.splits)

lemma fast_span_dict: "fast_span s = Some v \<Longrightarrow> \<exists>d. v = PDict d"
  by (auto simp: fast_span_def split: option.splits dest!: search_object_brace dest: json_loads_object)

text \<open>
  Claim C2, as amended. On every text both normalizers return, without raising, a
  dict. The fast normalizer's dict has the keys \<^verbatim>\<open>type\<close> and \<^verbatim>\<open>confidence\<close> unless it is
  the object decoded from the span, which is returned as the model wrote it.
\<close>

theorem normalizer_returns_mapping:
  "(\<exists>d. parse_json (PStr s) = Inr (PDict d)
        \<and> (has_key d ''type'' \<and> has_key d ''confidence'' \<or> fast_span s = Some (PDict d)))
   \<and> (\<exists>d. parse_response (PStr s) = PDict d)"
proof (intro conjI)
  show "\<exists>d. parse_json (PStr s) = Inr (PDict d)
        \<and> (has_key d ''type'' \<and> has_key d ''confidence'' \<or> fast_span s = Some (PDict d))"
  proof (cases "fast_span s")
    case None
    from parse_json_degraded [OF this] show ?thesis
      by (auto simp: has_key_def simp del: parse_json.simps)
  next
    case (Some v)
    with fast_span_dict [OF Some] parse_json_recovered [OF Some] show ?thesis
      by (auto simp del: parse_json.simps)
  qed
next
  show "\<exists>d. parse_response (PStr s) = PDict d"
    by (rule parse_response_dict)
qed

theorem normalizer_returns_mapping_witness:
  \<open>(\<exists>d. parse_json (PStr ''<think>hm</think>no object here'') = Inr (PDict d)
        \<and> (has_key d ''type'' \<and> has_key d ''confidence''
           \<or> fast_span ''<think>hm</think>no object here'' = Some (PDict d)))
   \<and> (\<exists>d. parse_response (PStr ''<think>hm</think>no object here'') = PDict d)\<close>
  by (rule normalizer_returns_mapping)

text \<open>
  Claim C2 as stated fails: a decoded object without the two keys is returned as it
  is, and the simple normalizer's fallback has neither key.
\<close>

theorem parsed_object_lacks_keys:
  \<open>parse_json (PStr ''{"summary":"unreadable"}'') = Inr (PDict [(''summary'', PStr ''unreadable'')])
   \<and> \<not> has_key [(''summary'', PStr ''unreadable'')] ''type''
   \<and> \<not> has_key [(''summary'', PStr ''unreadable'')] ''confidence''
   \<and> parse_response (PStr ''no object here'') = PDict [(''raw_content'', PStr ''no object here'')]
   \<and> \<not> has_key [(''raw_content'', PStr ''no object here'')] ''type''\<close>
  by code_simp

text \<open>
  Claim C3, as amended. When the fast normalizer finds no span, it returns \<^verbatim>\<open>type\<close>
  \<^verbatim>\<open>document\<close>, \<^verbatim>\<open>confidence\<close> 0.6 and, under \<^verbatim>\<open>main_content\<close>, the first 200 characters of
  the cleaned text; when the decoder rejects the span, \<^verbatim>\<open>confidence\<close> is 0.5 and the
  excerpt stands under \<^verbatim>\<open>raw\<close>. The simple normalizer returns the whole cleaned text
  under \<^verbatim>\<open>raw_content\<close> and nothing else.
\<close>

theorem degraded_record:
  "(search_object (fast_cleaned s) = None \<longrightarrow>
      parse_json (PStr s) =
        Inr (PDict [(''type'', PStr ''document''), (''confidence'', PNum (6 / 10)),
                    (''main_content'', PStr (take 200 (fast_cleaned s)))]))
   \<and> (\<forall>m. search_object (fast_cleaned s) = Some m \<longrightarrow> json_loads m = None \<longrightarrow>
      parse_json (PStr s) =
        Inr (PDict [(''type'', PStr ''document''), (''confidence'', PNum (5 / 10)),
                    (''raw'', PStr (take 200 (fast_cleaned s)))]))
   \<and> length (take 200 (fast_cleaned s)) \<le> 200
   \<and> prefix (take 200 (fast_cleaned s)) (fast_cleaned s)
   \<and> (simple_span s = None \<longrightarrow>
        parse_response (PStr s) = PDict [(''raw_content'', PStr (simple_cleaned s))])"
proof (intro conjI impI allI)
  assume "search_object (fast_cleaned s) = None"
  then show "parse_json (PStr s) =
        Inr (PDict [(''type'', PStr ''document''), (''confidence'', PNum (6 / 10)),
                    (''main_content'', PStr (take 200 (fast_cleaned s)))])"
    by (simp add: fast_cleaned_def Let_def)
next
  fix m
  assume "search_object (fast_cleaned s) = Some m" and "json_loads m = None"
  then show "parse_json (PStr s) =
        Inr (PDict [(''type'', PStr ''document''), (''confidence'', PNum (5 / 10)),
                    (''raw'', PStr (take 200 (fast_cleaned s)))])"
    by (simp add: fast_cleaned_def Let_def)
next
  show "length (take 200 (fast_cleaned s)) \<le> 200" by simp
next
  show "prefix (take 200 (fast_cleaned s)) (fast_cleaned s)" by (rule take_is_prefix)
next
  assume "simple_span s = None"
  then show "parse_response (PStr s) = PDict [(''raw_content'', PStr (simple_cleaned s))]"
    by (rule parse_response_degraded)
qed

theorem degraded_record_witness:
  \<open>search_object (fast_cleaned ''<think>hm</think>{"a": }'') = Some ''{"a": }''
   \<and> json_loads ''{"a": }'' = None
   \<and> parse_json (PStr ''<think>hm</think>{"a": }'') =
       Inr (PDict [(''type'', PStr ''document''), (''confidence'', PNum (5 / 10)),
                   (''raw'', PStr ''{"a": }'')])
   \<and> search_object (fast_cleaned ''<think>hm</think>no object'') = None
   \<and> parse_json (PStr ''<think>hm</think>no object'') =
       Inr (PDict [(''type'', PStr ''document''), (''confidence'', PNum (6 / 10)),
                   (''main_content'', PStr ''no object'')])
   \<and> simple_span ''<think>hm</think>{"a": }'' = None
   \<and> parse_response (PStr ''<think>hm</think>{"a": }'') =
        PDict [(''raw_content'', PStr ''{"a": }'')]\<close>
proof -
  have a: \<open>search_object (fast_cleaned ''<think>hm</think>{"a": }'') = Some ''{"a": }''\<close>
    by code_simp
  have b: \<open>json_loads ''{"a": }'' = None\<close> by code_simp
  have c: \<open>take 200 (fast_cleaned ''<think>hm</think>{"a": }'') = ''{"a": }''\<close> by code_simp
  have d: \<open>search_object (fast_cleaned ''<think>hm</think>no object'') = None\<close> by code_simp
  have e: \<open>take 200 (fast_cleaned ''<think>hm</think>no object'') = ''no object''\<close> by code_simp
  have f: \<open>simple_span ''<think>hm</think>{"a": }'' = None\<close> by code_simp
  have g: \<open>simple_cleaned ''<think>hm</think>{"a": }'' = ''{"a": }''\<close> by code_simp
  from degraded_record [of \<open>''<think>hm</think>{"a": }''\<close>] a b c f g
  have h: \<open>parse_json (PStr ''<think>hm</think>{"a": }'') =
       Inr (PDict [(''type'', PStr ''document''), (''confidence'', PNum (5 / 10)),
                   (''raw'', PStr ''{"a": }'')])\<close>
    and i: \<open>parse_response (PStr ''<think>hm</think>{"a": }'') =
        PDict [(''raw_content'', PStr ''{"a": }'')]\<close>
    by (simp_all del: parse_json.simps parse_response.simps)
  from degraded_record [of \<open>''<think>hm</think>no object''\<close>] d e
  have j: \<open>parse_json (PStr ''<think>hm</think>no object'') =
       Inr (PDict [(''type'', PStr ''document''), (''confidence'', PNum (6 / 10)),
                   (''main_content'', PStr ''no object'')])\<close>
    by (simp del: parse_json.simps parse_response.simps)
  from a b h d j f i show ?thesis
    by (intro conjI)
qed

text \<open>
  Claim C3 as stated fails: the excerpt is cut from the cleaned text, which need not be
  a prefix of the raw text, and the simple normalizer's record has no \<^verbatim>\<open>type\<close> or
  \<^verbatim>\<open>confidence\<close>.
\<close>

theorem excerpt_is_of_cleaned_text:
  \<open>fast_span ''```json hello'' = None
   \<and> parse_json (PStr ''```json hello'') =
       Inr (PDict [(''type'', PStr ''document''), (''confidence'', PNum (6 / 10)),
                   (''main_content'', PStr ''hello'')])
   \<and> \<not> prefix ''hello'' ''```json hello''
   \<and> simple_span ''hello'' = None
   \<and> parse_response (PStr ''hello'') = PDict [(''raw_content'', PStr ''hello'')]\<close>
  by code_simp

section \<open>The outcomes of a gateway query\<close>








section \<open>Recovering a wrapped object\<close>




declare sub_think.simps [simp del] sub_fences.simps [simp del] sub_lit_ws.simps [simp del]



















declare groups_end.simps [simp del]




















end
